theory Spec2Isabelle
  imports Main "HOL-Library.Word" "HOL-Library.Sublist"
begin

section \<open>The chat page script \<^verbatim>\<open>static/script.js\<close>\<close>

text \<open>
  The script registers one asynchronous listener for the \<^verbatim>\<open>submit\<close> event of the chat form
  and defines \<^verbatim>\<open>appendMessage\<close>. The embedding follows the script line by line. What the
  script leaves to the browser (the DOM operations it calls, the settlement of the two
  promises it awaits) is written out as small definitions named after the operation.
\<close>

subsection \<open>Strings\<close>

text \<open>
  An ECMAScript string is a sequence of 16-bit code units. \<open>lit\<close> writes the ASCII literals
  of the script.
\<close>

type_synonym jsstring = "16 word list"

definition lit :: "string \<Rightarrow> jsstring" where
  "lit s = map of_char s"

text \<open>
  \<^verbatim>\<open>String.prototype.trim\<close> removes the code units of WhiteSpace and LineTerminator from both
  ends: TAB, LF, VT, FF, CR, SP, NBSP, the Unicode space separators, LS, PS and ZWNBSP.
\<close>

definition StrWhiteSpaceChar :: "16 word \<Rightarrow> bool" where
  "StrWhiteSpaceChar c \<longleftrightarrow>
     c = 0x0009 \<or> c = 0x000A \<or> c = 0x000B \<or> c = 0x000C \<or> c = 0x000D \<or> c = 0x0020 \<or>
     c = 0x00A0 \<or> c = 0x1680 \<or> (0x2000 \<le> c \<and> c \<le> 0x200A) \<or> c = 0x2028 \<or> c = 0x2029 \<or>
     c = 0x202F \<or> c = 0x205F \<or> c = 0x3000 \<or> c = 0xFEFF"

definition trim :: "jsstring \<Rightarrow> jsstring" where
  "trim s = rev (dropWhile StrWhiteSpaceChar (rev (dropWhile StrWhiteSpaceChar s)))"

subsection \<open>Values\<close>

text \<open>
  The values the script handles: strings, and whatever \<^verbatim>\<open>response.json()\<close> yields. A JSON
  number is only ever displayed, so \<open>JNum\<close> carries the text \<^verbatim>\<open>Number::toString\<close> gives for
  it. \<open>JObj\<close> lists the members in the order of the body; a later member of the same name
  replaces an earlier one, as \<^verbatim>\<open>JSON.parse\<close> has it.
\<close>

datatype json =
    JNull
  | JBool bool
  | JNum jsstring
  | JStr jsstring
  | JArr "json list"
  | JObj "(jsstring \<times> json) list"

datatype jsval = Undefined | Value json

text \<open>An exception object: the script reads its \<^verbatim>\<open>message\<close> only.\<close>

datatype exn = Exn (error_name: jsstring) (error_message: jsstring)

text \<open>
  The exceptions the browser itself raises carry a text that differs between engines; the
  engine's text for each of them is a parameter.
\<close>

datatype fault = NullPropertyRead | NotPrimitive | EmptyToken | WhitespaceInToken

fun join :: "jsstring \<Rightarrow> jsstring list \<Rightarrow> jsstring" where
  "join sep [] = []"
| "join sep [x] = x"
| "join sep (x # y # ys) = x @ sep @ join sep (y # ys)"

text \<open>The results of a list of conversions, or the first exception among them.\<close>

fun collect :: "(exn + 'a) list \<Rightarrow> exn + 'a list" where
  "collect [] = Inr []"
| "collect (Inl e # rs) = Inl e"
| "collect (Inr x # rs) = (case collect rs of Inl e \<Rightarrow> Inl e | Inr xs \<Rightarrow> Inr (x # xs))"

text \<open>
  \<^verbatim>\<open>ToString\<close> on the values above. An object is converted by the first of its
  \<^verbatim>\<open>toString\<close> and \<^verbatim>\<open>valueOf\<close> that is callable and returns a primitive value: a member
  of a parsed body is never callable, so an object with a member named \<^verbatim>\<open>toString\<close> of its
  own hides \<^verbatim>\<open>Object.prototype.toString\<close>, \<^verbatim>\<open>valueOf\<close> gives back the object or is hidden too,
  and the conversion throws a TypeError; any other object gives \<^verbatim>\<open>[object Object]\<close>. An array
  joins the conversions of its elements with a comma, a \<^verbatim>\<open>null\<close> element giving the empty
  string, and throws when one of them throws.
\<close>

fun ToString :: "(fault \<Rightarrow> jsstring) \<Rightarrow> json \<Rightarrow> exn + jsstring" where
  "ToString engine_message JNull = Inr (lit ''null'')"
| "ToString engine_message (JBool b) = Inr (if b then lit ''true'' else lit ''false'')"
| "ToString engine_message (JNum n) = Inr n"
| "ToString engine_message (JStr s) = Inr s"
| "ToString engine_message (JArr xs) =
     (case collect (map (\<lambda>x. if x = JNull then Inr [] else ToString engine_message x) xs) of
        Inl e \<Rightarrow> Inl e
      | Inr strs \<Rightarrow> Inr (join (lit '','') strs))"
| "ToString engine_message (JObj kvs) =
     (if lit ''toString'' \<in> set (map fst kvs)
      then Inl (Exn (lit ''TypeError'') (engine_message NotPrimitive))
      else Inr (lit ''[object Object]''))"

text \<open>
  \<^verbatim>\<open>data.response\<close>, for a property name that no built-in prototype defines, as
  \<^verbatim>\<open>response\<close> is: reading a property of \<^verbatim>\<open>null\<close> throws a TypeError; an object gives its
  member of that name or \<^verbatim>\<open>undefined\<close>; a boolean, a number, a string and an array give
  \<^verbatim>\<open>undefined\<close>.
\<close>

definition get_property ::
  "(fault \<Rightarrow> jsstring) \<Rightarrow> json \<Rightarrow> jsstring \<Rightarrow> exn + jsval" where
  "get_property engine_message data key =
     (case data of
        JNull \<Rightarrow> Inl (Exn (lit ''TypeError'') (engine_message NullPropertyRead))
      | JObj kvs \<Rightarrow>
          (case map_of (rev kvs) key of None \<Rightarrow> Inr Undefined | Some v \<Rightarrow> Inr (Value v))
      | _ \<Rightarrow> Inr Undefined)"

subsection \<open>The document\<close>

text \<open>
  An element as far as the script touches it: the name it was created with, its class
  list and its text content.
\<close>

record element =
  localName :: jsstring
  classList :: "jsstring list"
  textContent :: jsstring

definition createElement :: "jsstring \<Rightarrow> element" where
  "createElement tag = \<lparr>localName = tag, classList = [], textContent = []\<rparr>"

definition ascii_whitespace :: "16 word \<Rightarrow> bool" where
  "ascii_whitespace c \<longleftrightarrow> c = 0x09 \<or> c = 0x0A \<or> c = 0x0C \<or> c = 0x0D \<or> c = 0x20"

text \<open>
  \<^verbatim>\<open>classList.add(token)\<close>: a SyntaxError for the empty token, an InvalidCharacterError
  for a token with ASCII whitespace; otherwise the token joins the ordered set.
\<close>

definition classList_add ::
  "(fault \<Rightarrow> jsstring) \<Rightarrow> jsstring \<Rightarrow> element \<Rightarrow> exn + element" where
  "classList_add engine_message token el =
     (if token = [] then Inl (Exn (lit ''SyntaxError'') (engine_message EmptyToken))
      else if list_ex ascii_whitespace token
      then Inl (Exn (lit ''InvalidCharacterError'') (engine_message WhitespaceInToken))
      else Inr (el\<lparr>classList :=
                     (if token \<in> set (classList el) then classList el
                      else classList el @ [token])\<rparr>))"

text \<open>
  Assigning \<^verbatim>\<open>textContent\<close>: the attribute is a nullable string, so \<^verbatim>\<open>undefined\<close> and
  \<^verbatim>\<open>null\<close> both become the empty string; any other value is converted by \<^verbatim>\<open>ToString\<close>,
  which may throw, and stored as text, never parsed.
\<close>

definition nullable_DOMString :: "(fault \<Rightarrow> jsstring) \<Rightarrow> jsval \<Rightarrow> exn + jsstring" where
  "nullable_DOMString engine_message v =
     (case v of
        Undefined \<Rightarrow> Inr []
      | Value JNull \<Rightarrow> Inr []
      | Value j \<Rightarrow> ToString engine_message j)"

definition set_textContent :: "(fault \<Rightarrow> jsstring) \<Rightarrow> jsval \<Rightarrow> element \<Rightarrow> exn + element" where
  "set_textContent engine_message v el =
     (case nullable_DOMString engine_message v of
        Inl e \<Rightarrow> Inl e
      | Inr s \<Rightarrow> Inr (el\<lparr>textContent := s\<rparr>))"

text \<open>The request \<^verbatim>\<open>fetch\<close> is called with, and the response it may resolve to.\<close>

record request =
  url :: jsstring
  http_method :: jsstring
  headers :: "(jsstring \<times> jsstring) list"
  body :: jsstring

record response =
  status :: nat

definition ok :: "response \<Rightarrow> bool" where
  "ok r \<longleftrightarrow> 200 \<le> status r \<and> status r \<le> 299"

text \<open>
  Every call of the listener is one activation of an asynchronous function. It is
  suspended at \<^verbatim>\<open>await fetch(...)\<close> or at \<^verbatim>\<open>await response.json()\<close>, or it is over: it has returned,
  or an exception has left it (an unhandled rejection).
\<close>

datatype task = AwaitFetch | AwaitJson | Returned | Threw exn

text \<open>What the script does to the world around it, in the order it does it.\<close>

datatype effect =
    Prevented
  | Appended element
  | InputSet jsstring
  | Requested request

text \<open>
  The page: the value of \<^verbatim>\<open>#message-input\<close>, the children and the scroll position of
  \<^verbatim>\<open>#conversation\<close>, the activations of the listener (the \<open>k\<close>-th submission is
  \<open>tasks ! k\<close>) and the effects so far. The page is assumed to hold the three elements the
  script looks up by id.
\<close>

record page =
  input_value :: jsstring
  conversation :: "element list"
  scrollTop :: nat
  tasks :: "task list"
  trace :: "effect list"

text \<open>
  What the script does not decide: the height of the conversation box, the height its
  children are laid out at (in whole pixels), and the engine's exception texts.
\<close>

record env =
  clientHeight :: nat
  content_height :: "element list \<Rightarrow> nat"
  engine_message :: "fault \<Rightarrow> jsstring"

definition scrollHeight :: "env \<Rightarrow> page \<Rightarrow> nat" where
  "scrollHeight env st = max (clientHeight env) (content_height env (conversation st))"

definition max_scrollTop :: "env \<Rightarrow> page \<Rightarrow> nat" where
  "max_scrollTop env st = scrollHeight env st - clientHeight env"

text \<open>Assigning \<^verbatim>\<open>scrollTop\<close> scrolls to the given offset, clamped to the scrollable range.\<close>

definition set_scrollTop :: "env \<Rightarrow> nat \<Rightarrow> page \<Rightarrow> page" where
  "set_scrollTop env y st = st\<lparr>scrollTop := min y (max_scrollTop env st)\<rparr>"

definition appendChild :: "element \<Rightarrow> page \<Rightarrow> page" where
  "appendChild el st =
     st\<lparr>conversation := conversation st @ [el], trace := trace st @ [Appended el]\<rparr>"

definition set_input_value :: "jsstring \<Rightarrow> page \<Rightarrow> page" where
  "set_input_value v st = st\<lparr>input_value := v, trace := trace st @ [InputSet v]\<rparr>"

definition preventDefault :: "page \<Rightarrow> page" where
  "preventDefault st = st\<lparr>trace := trace st @ [Prevented]\<rparr>"

definition fetch :: "request \<Rightarrow> page \<Rightarrow> page" where
  "fetch req st = st\<lparr>trace := trace st @ [Requested req]\<rparr>"

subsection \<open>\<^verbatim>\<open>appendMessage\<close>\<close>

text \<open>
  \<^verbatim>\<open>
  function appendMessage(sender, text) {
      const conversation = document.getElementById('conversation');
      const messageElement = document.createElement('div');
      messageElement.classList.add(sender + '-message');
      messageElement.textContent = text;
      conversation.appendChild(messageElement);
      conversation.scrollTop = conversation.scrollHeight;
  }
  \<close>
  The result is the exception thrown, if any, and the page as the call leaves it.
\<close>

definition appendMessage :: "env \<Rightarrow> jsstring \<Rightarrow> jsval \<Rightarrow> page \<Rightarrow> exn option \<times> page" where
  "appendMessage env sender text st =
     (let messageElement = createElement (lit ''div'') in
      case classList_add (engine_message env) (sender @ lit ''-message'') messageElement of
        Inl e \<Rightarrow> (Some e, st)
      | Inr messageElement \<Rightarrow>
          (case set_textContent (engine_message env) text messageElement of
             Inl e \<Rightarrow> (Some e, st)
           | Inr messageElement \<Rightarrow>
               (let st = appendChild messageElement st;
                    st = set_scrollTop env (scrollHeight env st) st
                in (None, st))))"

subsection \<open>\<^verbatim>\<open>JSON.stringify({ message: message })\<close>\<close>

text \<open>
  \<^verbatim>\<open>QuoteJSONString\<close>: the seven short escapes, \<^verbatim>\<open>\uXXXX\<close> (lower-case hexadecimal) for the
  other control characters and for a surrogate that is not half of a pair, every other
  code unit as it is.
\<close>

definition hex_digit :: "nat \<Rightarrow> 16 word" where
  "hex_digit n = of_nat (if n < 10 then 0x30 + n else 0x57 + n)"

definition UnicodeEscape :: "16 word \<Rightarrow> jsstring" where
  "UnicodeEscape c =
     (let n = unat c
      in [0x5C, 0x75, hex_digit (n div 0x1000), hex_digit (n div 0x100 mod 0x10),
          hex_digit (n div 0x10 mod 0x10), hex_digit (n mod 0x10)])"

definition leading_surrogate :: "16 word \<Rightarrow> bool" where
  "leading_surrogate c \<longleftrightarrow> 0xD800 \<le> c \<and> c \<le> 0xDBFF"

definition trailing_surrogate :: "16 word \<Rightarrow> bool" where
  "trailing_surrogate c \<longleftrightarrow> 0xDC00 \<le> c \<and> c \<le> 0xDFFF"

definition quote_code_unit :: "16 word \<Rightarrow> jsstring" where
  "quote_code_unit c =
     (if c = 0x08 then [0x5C, 0x62]
      else if c = 0x09 then [0x5C, 0x74]
      else if c = 0x0A then [0x5C, 0x6E]
      else if c = 0x0C then [0x5C, 0x66]
      else if c = 0x0D then [0x5C, 0x72]
      else if c = 0x22 then [0x5C, 0x22]
      else if c = 0x5C then [0x5C, 0x5C]
      else if c < 0x20 \<or> leading_surrogate c \<or> trailing_surrogate c then UnicodeEscape c
      else [c])"

fun quote_code_units :: "jsstring \<Rightarrow> jsstring" where
  "quote_code_units [] = []"
| "quote_code_units [c] = quote_code_unit c"
| "quote_code_units (c # d # cs) =
     (if leading_surrogate c \<and> trailing_surrogate d then c # d # quote_code_units cs
      else quote_code_unit c @ quote_code_units (d # cs))"

definition QuoteJSONString :: "jsstring \<Rightarrow> jsstring" where
  "QuoteJSONString s = 0x22 # quote_code_units s @ [0x22]"

text \<open>The serialisation of an object with the one property \<^verbatim>\<open>message\<close>, a string.\<close>

definition JSON_stringify_message :: "jsstring \<Rightarrow> jsstring" where
  "JSON_stringify_message message =
     lit ''{'' @ QuoteJSONString (lit ''message'') @ lit '':'' @ QuoteJSONString message @ lit ''}''"

subsection \<open>Reading the body back\<close>

text \<open>
  What the request is said to carry is the JSON object \<^verbatim>\<open>{"message": "<user text>"}\<close>. To say
  so of a sequence of code units, here is a reader of JSON text of that form, following the
  JSON grammar of strings: a string is a quotation mark, characters and a quotation mark;
  a character is any code unit from U+0020 on but the quotation mark and the reverse
  solidus, or one of the escapes \<^verbatim>\<open>\" \\ \/ \b \f \n \r \t\<close>, or \<^verbatim>\<open>\u\<close> and four hexadecimal
  digits.
\<close>

definition hex_value :: "16 word \<Rightarrow> nat option" where
  "hex_value h =
     (let n = unat h
      in if 0x30 \<le> n \<and> n \<le> 0x39 then Some (n - 0x30)
         else if 0x61 \<le> n \<and> n \<le> 0x66 then Some (n - 0x57)
         else if 0x41 \<le> n \<and> n \<le> 0x46 then Some (n - 0x37)
         else None)"

definition hex4 :: "16 word \<Rightarrow> 16 word \<Rightarrow> 16 word \<Rightarrow> 16 word \<Rightarrow> 16 word option" where
  "hex4 h3 h2 h1 h0 =
     (case (hex_value h3, hex_value h2, hex_value h1, hex_value h0) of
        (Some x3, Some x2, Some x1, Some x0) \<Rightarrow>
          Some (of_nat (0x1000 * x3 + 0x100 * x2 + 0x10 * x1 + x0))
      | _ \<Rightarrow> None)"

definition escape_value :: "16 word \<Rightarrow> 16 word option" where
  "escape_value e =
     (if e = 0x22 then Some 0x22
      else if e = 0x5C then Some 0x5C
      else if e = 0x2F then Some 0x2F
      else if e = 0x62 then Some 0x08
      else if e = 0x66 then Some 0x0C
      else if e = 0x6E then Some 0x0A
      else if e = 0x72 then Some 0x0D
      else if e = 0x74 then Some 0x09
      else None)"

text \<open>The characters up to the closing quotation mark, and what follows it.\<close>

fun read_chars :: "jsstring \<Rightarrow> (jsstring \<times> jsstring) option" where
  "read_chars [] = None"
| "read_chars (c # cs) =
     (if c = 0x22 then Some ([], cs)
      else if c = 0x5C then
        (case cs of
           [] \<Rightarrow> None
         | e # es \<Rightarrow>
             if e = 0x75 then
               (case es of
                  h3 # h2 # h1 # h0 # rest \<Rightarrow>
                    (case hex4 h3 h2 h1 h0 of
                       None \<Rightarrow> None
                     | Some u \<Rightarrow> map_option (apfst ((#) u)) (read_chars rest))
                | _ \<Rightarrow> None)
             else
               (case escape_value e of
                  None \<Rightarrow> None
                | Some u \<Rightarrow> map_option (apfst ((#) u)) (read_chars es)))
      else if c < 0x20 then None
      else map_option (apfst ((#) c)) (read_chars cs))"

definition read_string :: "jsstring \<Rightarrow> (jsstring \<times> jsstring) option" where
  "read_string s = (case s of [] \<Rightarrow> None | q # cs \<Rightarrow> if q = 0x22 then read_chars cs else None)"

text \<open>
  The text of an object with the single member \<^verbatim>\<open>message\<close>, a string, written without white
  space: the result is the value of the member.
\<close>

definition read_message_body :: "jsstring \<Rightarrow> jsstring option" where
  "read_message_body b =
     (case b of
        [] \<Rightarrow> None
      | brace # r0 \<Rightarrow>
          if brace \<noteq> 0x7B then None
          else (case read_string r0 of
                  None \<Rightarrow> None
                | Some (name, r1) \<Rightarrow>
                    if name \<noteq> lit ''message'' then None
                    else (case r1 of
                            [] \<Rightarrow> None
                          | colon # r2 \<Rightarrow>
                              if colon \<noteq> 0x3A then None
                              else (case read_string r2 of
                                      None \<Rightarrow> None
                                    | Some (v, r3) \<Rightarrow> if r3 = [0x7D] then Some v else None))))"

subsection \<open>The submit listener\<close>

text \<open>
  \<^verbatim>\<open>
  document.getElementById('chat-form').addEventListener('submit', async function(event) {
      event.preventDefault();
      const input = document.getElementById('message-input');
      const message = input.value.trim();
      if (message) {
          appendMessage('user', message);
          input.value = '';
          try {
              const response = await fetch('/chat', {
                  method: 'POST',
                  headers: {
                      'Content-Type': 'application/json'
                  },
                  body: JSON.stringify({ message: message })
              });
              if (!response.ok) {
                  throw new Error('Network response was not ok');
              }
              const data = await response.json();
              appendMessage('bot', data.response);
          } catch (error) {
              appendMessage('bot', 'Error: ' + error.message);
          }
      }
  });
  \<close>
  The function runs in three stretches: from the event to \<^verbatim>\<open>await fetch\<close>, from the
  settlement of that promise to \<^verbatim>\<open>await response.json()\<close>, and from the settlement of that one
  to the end. Between two stretches anything else may happen on the page.
\<close>

definition start_task :: "task \<Rightarrow> page \<Rightarrow> page" where
  "start_task t st = st\<lparr>tasks := tasks st @ [t]\<rparr>"

definition set_task :: "nat \<Rightarrow> task \<Rightarrow> page \<Rightarrow> page" where
  "set_task k t st = st\<lparr>tasks := (tasks st)[k := t]\<rparr>"

text \<open>First stretch. A string is truthy when it is not empty.\<close>

definition submit_listener :: "env \<Rightarrow> page \<Rightarrow> page" where
  "submit_listener env st0 =
     (let st = preventDefault st0;
          message = trim (input_value st)
      in if message \<noteq> [] then
           (case appendMessage env (lit ''user'') (Value (JStr message)) st of
              (Some e, st) \<Rightarrow> start_task (Threw e) st
            | (None, st) \<Rightarrow>
                (let st = set_input_value [] st;
                     st = fetch \<lparr>url = lit ''/chat'', http_method = lit ''POST'',
                                 headers = [(lit ''Content-Type'', lit ''application/json'')],
                                 body = JSON_stringify_message message\<rparr> st
                 in start_task AwaitFetch st))
         else start_task Returned st)"

text \<open>The \<^verbatim>\<open>catch\<close> block; an exception of its own leaves the function.\<close>

definition catch_block :: "env \<Rightarrow> nat \<Rightarrow> exn \<Rightarrow> page \<Rightarrow> page" where
  "catch_block env k error st =
     (case appendMessage env (lit ''bot'') (Value (JStr (lit ''Error: '' @ error_message error))) st of
        (Some e, st) \<Rightarrow> set_task k (Threw e) st
      | (None, st) \<Rightarrow> set_task k Returned st)"

text \<open>A promise settles: it is rejected with an exception or fulfilled with a value.\<close>

datatype 'a settled = Rejects exn | Fulfils 'a

text \<open>Second stretch: the promise of \<^verbatim>\<open>fetch\<close> has settled.\<close>

definition after_fetch :: "env \<Rightarrow> nat \<Rightarrow> response settled \<Rightarrow> page \<Rightarrow> page" where
  "after_fetch env k r st =
     (case r of
        Rejects e \<Rightarrow> catch_block env k e st
      | Fulfils response \<Rightarrow>
          if \<not> ok response
          then catch_block env k (Exn (lit ''Error'') (lit ''Network response was not ok'')) st
          else set_task k AwaitJson st)"

text \<open>Third stretch: the promise of \<^verbatim>\<open>response.json()\<close> has settled.\<close>

definition after_json :: "env \<Rightarrow> nat \<Rightarrow> json settled \<Rightarrow> page \<Rightarrow> page" where
  "after_json env k r st =
     (case r of
        Rejects e \<Rightarrow> catch_block env k e st
      | Fulfils data \<Rightarrow>
          (case get_property (engine_message env) data (lit ''response'') of
             Inl e \<Rightarrow> catch_block env k e st
           | Inr v \<Rightarrow>
               (case appendMessage env (lit ''bot'') v st of
                  (Some e, st) \<Rightarrow> catch_block env k e st
                | (None, st) \<Rightarrow> set_task k Returned st)))"

subsection \<open>The page as a transition system\<close>

text \<open>
  What can happen: the user edits the input field, the user submits the form, the
  \<^verbatim>\<open>fetch\<close> of submission \<open>k\<close> settles, the body of submission \<open>k\<close> has been read. A promise
  settles only for an activation that waits for it.
\<close>

datatype event =
    UserTypes jsstring
  | UserSubmits
  | FetchSettles nat "response settled"
  | JsonSettles nat "json settled"

definition step :: "env \<Rightarrow> event \<Rightarrow> page \<Rightarrow> page option" where
  "step env ev st =
     (case ev of
        UserTypes v \<Rightarrow> Some (st\<lparr>input_value := v\<rparr>)
      | UserSubmits \<Rightarrow> Some (submit_listener env st)
      | FetchSettles k r \<Rightarrow>
          if k < length (tasks st) \<and> tasks st ! k = AwaitFetch
          then Some (after_fetch env k r st) else None
      | JsonSettles k r \<Rightarrow>
          if k < length (tasks st) \<and> tasks st ! k = AwaitJson
          then Some (after_json env k r st) else None)"

fun run :: "env \<Rightarrow> event list \<Rightarrow> page \<Rightarrow> page option" where
  "run env [] st = Some st"
| "run env (ev # evs) st =
     (case step env ev st of None \<Rightarrow> None | Some st' \<Rightarrow> run env evs st')"

text \<open>The activation whose promise an event settles.\<close>

fun settles :: "event \<Rightarrow> nat option" where
  "settles (FetchSettles k r) = Some k"
| "settles (JsonSettles k r) = Some k"
| "settles _ = None"

text \<open>The messages appended by a stretch of the trace.\<close>

fun appended :: "effect list \<Rightarrow> element list" where
  "appended [] = []"
| "appended (Appended el # fx) = el # appended fx"
| "appended (_ # fx) = appended fx"

fun requested :: "effect list \<Rightarrow> request list" where
  "requested [] = []"
| "requested (Requested req # fx) = req # requested fx"
| "requested (_ # fx) = requested fx"

text \<open>A message of the transcript, as \<^verbatim>\<open>appendMessage\<close> builds it.\<close>

definition message_element :: "jsstring \<Rightarrow> jsstring \<Rightarrow> element" where
  "message_element sender text =
     \<lparr>localName = lit ''div'', classList = [sender @ lit ''-message''], textContent = text\<rparr>"

text \<open>The entry a failure is shown as: \<^verbatim>\<open>"Error: "\<close> and the description of the failure.\<close>

definition error_entry :: "jsstring \<Rightarrow> element" where
  "error_entry description = message_element (lit ''bot'') (lit ''Error: '' @ description)"

text \<open>
  The page after \<open>el\<close> has been appended to the conversation and scrolled into view.
\<close>

definition shown :: "env \<Rightarrow> element \<Rightarrow> page \<Rightarrow> page" where
  "shown env el st =
     st\<lparr>conversation := conversation st @ [el],
        trace := trace st @ [Appended el],
        scrollTop := max (clientHeight env) (content_height env (conversation st @ [el]))
                     - clientHeight env\<rparr>"

subsection \<open>A page to run the script on\<close>

text \<open>
  A conversation box 50 pixels high whose children are laid out 40 pixels high each; a page
  with a greeting, three submissions under way and an input field holding \<^verbatim>\<open>"  Hi "\<close>; the
  same input on a page with one submission under way, and on a page holding blanks.
\<close>

definition example_env :: env where
  "example_env =
     \<lparr>clientHeight = 50, content_height = (\<lambda>els. 40 * length els),
        engine_message = (\<lambda>f. lit ''engine text'')\<rparr>"

definition example_page :: page where
  "example_page =
     \<lparr>input_value = lit ''  Hi '',
        conversation = [message_element (lit ''bot'') (lit ''Welcome'')],
        scrollTop = 0, tasks = [AwaitFetch, AwaitJson, AwaitJson], trace = []\<rparr>"

definition pending_page :: page where
  "pending_page =
     \<lparr>input_value = lit ''  Hi '',
        conversation = [message_element (lit ''user'') (lit ''Hello'')],
        scrollTop = 0, tasks = [AwaitJson], trace = []\<rparr>"

definition blank_page :: page where
  "blank_page = example_page\<lparr>input_value := lit ''   ''\<rparr>"

section \<open>Properties\<close>

subsection \<open>Auxiliary facts\<close>

lemma lit_Nil: "lit [] = []"
  by (simp add: lit_def)

lemma lit_Cons: "lit (c # cs) = of_char c # lit cs"
  by (simp add: lit_def)

lemma lit_append: "lit (a @ b) = lit a @ lit b"
  by (simp add: lit_def)

lemma suffix_plain: "\<not> list_ex ascii_whitespace (lit ''-message'')"
  by (simp add: lit_Nil lit_Cons ascii_whitespace_def)

lemma suffix_nonempty: "lit ''-message'' \<noteq> []"
  by (simp add: lit_Cons)

lemma user_plain: "\<not> list_ex ascii_whitespace (lit ''user'')"
  by (simp add: lit_Nil lit_Cons ascii_whitespace_def)

lemma bot_plain: "\<not> list_ex ascii_whitespace (lit ''bot'')"
  by (simp add: lit_Nil lit_Cons ascii_whitespace_def)

lemma shown_fields:
  "conversation (shown env el st) = conversation st @ [el]"
  "trace (shown env el st) = trace st @ [Appended el]"
  "scrollTop (shown env el st) = max_scrollTop env (shown env el st)"
  "input_value (shown env el st) = input_value st"
  "tasks (shown env el st) = tasks st"
  by (simp_all add: shown_def max_scrollTop_def scrollHeight_def)

text \<open>A sender without ASCII whitespace: the call appends the message and returns.\<close>

lemma appendMessage_plain:
  assumes "\<not> list_ex ascii_whitespace sender"
    and "nullable_DOMString (engine_message env) v = Inr s"
  shows "appendMessage env sender v st = (None, shown env (message_element sender s) st)"
  using assms
  by (simp add: appendMessage_def classList_add_def suffix_plain suffix_nonempty
      createElement_def set_textContent_def appendChild_def set_scrollTop_def
      max_scrollTop_def scrollHeight_def message_element_def shown_def Let_def)

text \<open>A text that cannot be converted: the setter throws and the page is as before.\<close>

lemma appendMessage_unprintable:
  assumes "\<not> list_ex ascii_whitespace sender"
    and "nullable_DOMString (engine_message env) v = Inl e"
  shows "appendMessage env sender v st = (Some e, st)"
  using assms
  by (simp add: appendMessage_def classList_add_def suffix_plain suffix_nonempty
      createElement_def set_textContent_def Let_def)

text \<open>A sender with ASCII whitespace: \<^verbatim>\<open>classList.add\<close> throws and the page is as before.\<close>

lemma appendMessage_whitespace:
  assumes "list_ex ascii_whitespace sender"
  shows "appendMessage env sender v st =
           (Some (Exn (lit ''InvalidCharacterError'') (engine_message env WhitespaceInToken)), st)"
  using assms
  by (simp add: appendMessage_def classList_add_def suffix_nonempty)

lemmas appendMessage_user = appendMessage_plain [OF user_plain]

lemmas appendMessage_bot = appendMessage_plain [OF bot_plain]

lemma nullable_DOMString_JStr: "nullable_DOMString em (Value (JStr s)) = Inr s"
  by (simp add: nullable_DOMString_def)

text \<open>The three stretches of the listener, each as one update of the page.\<close>

lemma submit_listener_nonempty:
  assumes "trim (input_value st) \<noteq> []"
  shows "submit_listener env st =
           start_task AwaitFetch
             (fetch \<lparr>url = lit ''/chat'', http_method = lit ''POST'',
                      headers = [(lit ''Content-Type'', lit ''application/json'')],
                      body = JSON_stringify_message (trim (input_value st))\<rparr>
                (set_input_value []
                   (shown env (message_element (lit ''user'') (trim (input_value st)))
                      (preventDefault st))))"
  using assms
  by (simp add: submit_listener_def appendMessage_user [OF nullable_DOMString_JStr] Let_def
      preventDefault_def)

lemma submit_listener_empty:
  assumes "trim (input_value st) = []"
  shows "submit_listener env st = start_task Returned (preventDefault st)"
  using assms
  by (simp add: submit_listener_def preventDefault_def Let_def)

lemma catch_block_eq:
  "catch_block env k e st =
     set_task k Returned (shown env (error_entry (error_message e)) st)"
  by (simp add: catch_block_def appendMessage_bot [OF nullable_DOMString_JStr] error_entry_def)

lemma after_fetch_rejects: "after_fetch env k (Rejects e) st = catch_block env k e st"
  by (simp add: after_fetch_def)

lemma after_fetch_not_ok:
  "\<not> ok resp \<Longrightarrow>
   after_fetch env k (Fulfils resp) st =
     catch_block env k (Exn (lit ''Error'') (lit ''Network response was not ok'')) st"
  by (simp add: after_fetch_def)

lemma after_fetch_ok: "ok resp \<Longrightarrow> after_fetch env k (Fulfils resp) st = set_task k AwaitJson st"
  by (simp add: after_fetch_def)

lemma after_json_rejects: "after_json env k (Rejects e) st = catch_block env k e st"
  by (simp add: after_json_def)

lemma after_json_null:
  "after_json env k (Fulfils JNull) st =
     catch_block env k (Exn (lit ''TypeError'') (engine_message env NullPropertyRead)) st"
  by (simp add: after_json_def get_property_def)

lemma get_property_not_null:
  "data \<noteq> JNull \<Longrightarrow> \<exists>v. get_property em data key = Inr v"
  by (cases data) (simp_all add: get_property_def split: option.split)

lemma get_property_response:
  "get_property em (JObj [(lit ''response'', v)]) (lit ''response'') = Inr (Value v)"
  by (simp add: get_property_def)

lemma after_json_value:
  assumes "get_property (engine_message env) data (lit ''response'') = Inr v"
    and "nullable_DOMString (engine_message env) v = Inr s"
  shows "after_json env k (Fulfils data) st =
           set_task k Returned (shown env (message_element (lit ''bot'') s) st)"
  using assms by (simp add: after_json_def appendMessage_bot)

lemma after_json_unprintable:
  assumes "get_property (engine_message env) data (lit ''response'') = Inr v"
    and "nullable_DOMString (engine_message env) v = Inl e"
  shows "after_json env k (Fulfils data) st = catch_block env k e st"
  using assms by (simp add: after_json_def appendMessage_unprintable [OF bot_plain])

lemma after_json_string:
  "after_json env k (Fulfils (JObj [(lit ''response'', JStr r)])) st =
     set_task k Returned (shown env (message_element (lit ''bot'') r) st)"
  by (rule after_json_value [OF get_property_response nullable_DOMString_JStr])




lemma page_fields:
  "conversation (start_task t st) = conversation st"
  "trace (start_task t st) = trace st"
  "scrollTop (start_task t st) = scrollTop st"
  "input_value (start_task t st) = input_value st"
  "tasks (start_task t st) = tasks st @ [t]"
  "conversation (set_task k t st) = conversation st"
  "trace (set_task k t st) = trace st"
  "scrollTop (set_task k t st) = scrollTop st"
  "input_value (set_task k t st) = input_value st"
  "tasks (set_task k t st) = (tasks st)[k := t]"
  "conversation (fetch req st) = conversation st"
  "trace (fetch req st) = trace st @ [Requested req]"
  "scrollTop (fetch req st) = scrollTop st"
  "input_value (fetch req st) = input_value st"
  "tasks (fetch req st) = tasks st"
  "conversation (set_input_value s st) = conversation st"
  "trace (set_input_value s st) = trace st @ [InputSet s]"
  "scrollTop (set_input_value s st) = scrollTop st"
  "input_value (set_input_value s st) = s"
  "tasks (set_input_value s st) = tasks st"
  "conversation (preventDefault st) = conversation st"
  "trace (preventDefault st) = trace st @ [Prevented]"
  "scrollTop (preventDefault st) = scrollTop st"
  "input_value (preventDefault st) = input_value st"
  "tasks (preventDefault st) = tasks st"
  by (simp_all add: start_task_def set_task_def fetch_def set_input_value_def
      preventDefault_def)

lemma max_scrollTop_fields:
  "max_scrollTop env (start_task t st) = max_scrollTop env st"
  "max_scrollTop env (set_task k t st) = max_scrollTop env st"
  "max_scrollTop env (fetch req st) = max_scrollTop env st"
  "max_scrollTop env (set_input_value s st) = max_scrollTop env st"
  "max_scrollTop env (preventDefault st) = max_scrollTop env st"
  by (simp_all add: max_scrollTop_def scrollHeight_def page_fields)

lemma trim_example: "trim (lit ''  Hi '') = lit ''Hi''"
  by (simp add: trim_def lit_Nil lit_Cons StrWhiteSpaceChar_def)

lemma dropWhile_Nil_iff: "dropWhile P xs = [] \<longleftrightarrow> list_all P xs"
  by (induction xs) auto

text \<open>The trimmed string is empty exactly when every code unit is white space.\<close>

lemma trim_empty_iff: "trim s = [] \<longleftrightarrow> list_all StrWhiteSpaceChar s"
proof
  assume "trim s = []"
  then have "dropWhile StrWhiteSpaceChar (rev (dropWhile StrWhiteSpaceChar s)) = []"
    by (simp add: trim_def)
  then have "list_all StrWhiteSpaceChar (dropWhile StrWhiteSpaceChar s)"
    by (simp add: dropWhile_Nil_iff list_all_iff)
  then have "dropWhile StrWhiteSpaceChar (dropWhile StrWhiteSpaceChar s) = []"
    by (simp only: dropWhile_Nil_iff)
  then have "dropWhile StrWhiteSpaceChar s = []"
    by (simp only: dropWhile_idem)
  then show "list_all StrWhiteSpaceChar s"
    by (simp only: dropWhile_Nil_iff)
next
  assume "list_all StrWhiteSpaceChar s"
  then show "trim s = []"
    by (simp add: trim_def dropWhile_Nil_iff [THEN iffD2])
qed

lemma appended_append: "appended (xs @ ys) = appended xs @ appended ys"
  by (induction xs rule: appended.induct) simp_all

lemma requested_append: "requested (xs @ ys) = requested xs @ requested ys"
  by (induction xs rule: requested.induct) simp_all

lemma blank_is_white: "trim (input_value blank_page) = []"
  by (simp add: blank_page_def trim_empty_iff lit_Nil lit_Cons StrWhiteSpaceChar_def)

lemma example_tasks:
  "tasks example_page = [AwaitFetch, AwaitJson, AwaitJson]"
  "conversation example_page = [message_element (lit ''bot'') (lit ''Welcome'')]"
  "trace example_page = []"
  "input_value example_page = lit ''  Hi ''"
  "scrollTop example_page = 0"
  by (simp_all add: example_page_def)

text \<open>Every step adds to the trace and appends to the conversation what the trace says.\<close>

lemma step_extends:
  assumes "step env ev st = Some st'"
  shows "\<exists>fx. trace st' = trace st @ fx \<and> conversation st' = conversation st @ appended fx \<and>
              (appended fx = [] \<or> scrollTop st' = max_scrollTop env st') \<and>
              requested fx =
                (if ev = UserSubmits \<and> trim (input_value st) \<noteq> []
                 then [\<lparr>url = lit ''/chat'', http_method = lit ''POST'',
                         headers = [(lit ''Content-Type'', lit ''application/json'')],
                         body = JSON_stringify_message (trim (input_value st))\<rparr>]
                 else [])"
proof (cases ev)
  case (UserTypes v)
  with assms show ?thesis
    by (auto simp: step_def)
next
  case UserSubmits
  show ?thesis
  proof (cases "trim (input_value st) = []")
    case True
    with assms UserSubmits show ?thesis
      by (auto simp: step_def submit_listener_empty page_fields)
  next
    case False
    with assms UserSubmits show ?thesis
      by (auto simp: step_def submit_listener_nonempty page_fields shown_fields
          max_scrollTop_fields)
  qed
next
  case (FetchSettles k r)
  show ?thesis
  proof (cases r)
    case (Rejects e)
    with assms FetchSettles show ?thesis
      by (auto simp: step_def after_fetch_rejects catch_block_eq page_fields shown_fields
          max_scrollTop_fields split: if_splits)
  next
    case (Fulfils resp)
    with assms FetchSettles show ?thesis
      by (cases "ok resp")
        (auto simp: step_def after_fetch_ok after_fetch_not_ok catch_block_eq page_fields
          shown_fields max_scrollTop_fields split: if_splits)
  qed
next
  case (JsonSettles k r)
  show ?thesis
  proof (cases r)
    case (Rejects e)
    with assms JsonSettles show ?thesis
      by (auto simp: step_def after_json_rejects catch_block_eq page_fields shown_fields
          max_scrollTop_fields split: if_splits)
  next
    case (Fulfils data)
    show ?thesis
    proof (cases "data = JNull")
      case True
      with assms JsonSettles Fulfils show ?thesis
        by (auto simp: step_def after_json_null catch_block_eq page_fields shown_fields
            max_scrollTop_fields split: if_splits)
    next
      case False
      then obtain v where v: "get_property (engine_message env) data (lit ''response'') = Inr v"
        using get_property_not_null by blast
      show ?thesis
      proof (cases "nullable_DOMString (engine_message env) v")
        case (Inl e)
        with assms JsonSettles Fulfils show ?thesis
          by (auto simp: step_def after_json_unprintable [OF v] catch_block_eq page_fields
              shown_fields max_scrollTop_fields split: if_splits)
      next
        case (Inr s)
        with assms JsonSettles Fulfils show ?thesis
          by (auto simp: step_def after_json_value [OF v] page_fields shown_fields
              max_scrollTop_fields split: if_splits)
      qed
    qed
  qed
qed

lemma run_extends:
  "run env evs st = Some st' \<Longrightarrow>
   \<exists>fx. trace st' = trace st @ fx \<and> conversation st' = conversation st @ appended fx"
proof (induction evs arbitrary: st)
  case Nil
  then show ?case by simp
next
  case (Cons ev evs)
  from Cons.prems obtain st1 where s: "step env ev st = Some st1" and r: "run env evs st1 = Some st'"
    by (auto split: option.splits)
  from step_extends [OF s] obtain fx1
    where 1: "trace st1 = trace st @ fx1" "conversation st1 = conversation st @ appended fx1"
    by blast
  from Cons.IH [OF r] obtain fx2
    where 2: "trace st' = trace st1 @ fx2" "conversation st' = conversation st1 @ appended fx2"
    by blast
  from 1 2 have "trace st' = trace st @ (fx1 @ fx2) \<and>
      conversation st' = conversation st @ appended (fx1 @ fx2)"
    by (simp add: appended_append)
  then show ?case by blast
qed

text \<open>The reader undoes \<^verbatim>\<open>QuoteJSONString\<close>.\<close>

lemma unat_16_less: "unat (c :: 16 word) < 65536"
  using unsigned_less [of c, where 'a = nat] by simp

lemma hex_value_digit: "n < 16 \<Longrightarrow> hex_value (hex_digit n) = Some n"
  by (auto simp: hex_value_def hex_digit_def unat_of_nat Let_def take_bit_eq_mod)

lemma digits_sum:
  fixes n :: nat
  assumes "n = 16 * c + d0" and "c = 16 * b + d1" and "b = 16 * a + d2"
  shows "4096 * a + 256 * d2 + 16 * d1 + d0 = n"
  using assms by simp

lemma digits:
  "0x1000 * (n div 0x1000) + 0x100 * (n div 0x100 mod 0x10) + 0x10 * (n div 0x10 mod 0x10)
     + n mod 0x10 = (n::nat)"
proof -
  have "n div 256 = n div (16 * 16)" by simp
  also have "\<dots> = n div 16 div 16" by (rule div_mult2_eq)
  finally have b: "n div 256 = n div 16 div 16" .
  have "n div 4096 = n div (256 * 16)" by simp
  also have "\<dots> = n div 256 div 16" by (rule div_mult2_eq)
  finally have a: "n div 4096 = n div 256 div 16" .
  have 1: "n = 16 * (n div 16) + n mod 16"
    by (rule mult_div_mod_eq [symmetric])
  have 2: "n div 16 = 16 * (n div 256) + n div 16 mod 16"
    unfolding b by (rule mult_div_mod_eq [symmetric])
  have 3: "n div 256 = 16 * (n div 4096) + n div 256 mod 16"
    unfolding a by (rule mult_div_mod_eq [symmetric])
  show ?thesis
    by (rule digits_sum [OF 1 2 3])
qed

lemma hex4_escape:
  "hex4 (hex_digit (unat c div 0x1000)) (hex_digit (unat c div 0x100 mod 0x10))
     (hex_digit (unat c div 0x10 mod 0x10)) (hex_digit (unat c mod 0x10)) = Some c"
proof -
  have "unat c div 0x1000 < 16"
    using unat_16_less [of c] by (simp add: less_mult_imp_div_less)
  then show ?thesis
    by (simp add: hex4_def hex_value_digit digits)
qed

lemma surrogate_plain:
  "leading_surrogate c \<or> trailing_surrogate c \<Longrightarrow> c \<noteq> 0x22 \<and> c \<noteq> 0x5C \<and> \<not> c < 0x20"
  unfolding leading_surrogate_def trailing_surrogate_def
  by (auto simp: word_le_nat_alt word_less_nat_alt)

lemma read_chars_unit:
  "read_chars (quote_code_unit c @ rest) = map_option (apfst ((#) c)) (read_chars rest)"
  by (simp add: quote_code_unit_def UnicodeEscape_def Let_def hex4_escape escape_value_def)

lemma read_chars_quoted: "read_chars (quote_code_units s @ 0x22 # rest) = Some (s, rest)"
proof (induction s rule: quote_code_units.induct)
  case 1
  show ?case by simp
next
  case (2 c)
  show ?case by (simp add: read_chars_unit del: read_chars.simps) simp
next
  case (3 c d cs)
  show ?case
  proof (cases "leading_surrogate c \<and> trailing_surrogate d")
    case True
    with surrogate_plain [of c] surrogate_plain [of d] 3 show ?thesis
      by simp
  next
    case False
    with 3 show ?thesis
      by (auto simp add: read_chars_unit simp del: read_chars.simps)
  qed
qed

lemma read_string_quoted: "read_string (QuoteJSONString s @ rest) = Some (s, rest)"
  by (simp add: read_string_def QuoteJSONString_def read_chars_quoted)

lemma read_message_body_stringify: "read_message_body (JSON_stringify_message m) = Some m"
proof -
  have "JSON_stringify_message m =
      0x7B # QuoteJSONString (lit ''message'') @ 0x3A # QuoteJSONString m @ [0x7D]"
    by (simp add: JSON_stringify_message_def lit_Nil lit_Cons)
  then show ?thesis
    by (simp add: read_message_body_def read_string_quoted)
qed

lemma stringify_example:
  "JSON_stringify_message (lit ''Hi'') =
     lit ''{'' @ [0x22] @ lit ''message'' @ [0x22] @ lit '':'' @ [0x22] @ lit ''Hi'' @ [0x22] @ lit ''}''"
  by (simp add: JSON_stringify_message_def QuoteJSONString_def quote_code_unit_def
      leading_surrogate_def trailing_surrogate_def lit_Nil lit_Cons)

lemma pending_fields:
  "tasks pending_page = [AwaitJson]"
  "conversation pending_page = [message_element (lit ''user'') (lit ''Hello'')]"
  "trace pending_page = []"
  "input_value pending_page = lit ''  Hi ''"
  "scrollTop pending_page = 0"
  by (simp_all add: pending_page_def)

lemma trim_example_nonempty: "trim (lit ''  Hi '') \<noteq> []"
  by (simp add: trim_example) (simp add: lit_Cons)

text \<open>
  A settlement does the same to every page on which it can happen: it appends the same
  messages and leaves its activation in the same state.
\<close>

lemma fold_shown_fields:
  "conversation (fold (shown env) els st) = conversation st @ els"
  "tasks (fold (shown env) els st) = tasks st"
  by (induction els arbitrary: st) (simp_all add: shown_fields)

lemma settlement_uniform:
  assumes "settles ev = Some k"
  shows "\<exists>els t w. \<forall>s. step env ev s =
           (if k < length (tasks s) \<and> tasks s ! k = w
            then Some (set_task k t (fold (shown env) els s)) else None)"
proof (cases ev)
  case (UserTypes v)
  with assms show ?thesis by simp
next
  case UserSubmits
  with assms show ?thesis by simp
next
  case (FetchSettles k' r)
  with assms have k: "k' = k" by simp
  show ?thesis
  proof (cases r)
    case (Rejects e)
    have "\<forall>s. step env ev s =
           (if k < length (tasks s) \<and> tasks s ! k = AwaitFetch
            then Some (set_task k Returned (fold (shown env) [error_entry (error_message e)] s))
            else None)"
      by (simp add: FetchSettles k Rejects step_def after_fetch_rejects catch_block_eq)
    then show ?thesis by blast
  next
    case (Fulfils resp)
    show ?thesis
    proof (cases "ok resp")
      case True
      then have "\<forall>s. step env ev s =
           (if k < length (tasks s) \<and> tasks s ! k = AwaitFetch
            then Some (set_task k AwaitJson (fold (shown env) [] s)) else None)"
        by (simp add: FetchSettles k Fulfils step_def after_fetch_ok)
      then show ?thesis by blast
    next
      case False
      then have "\<forall>s. step env ev s =
           (if k < length (tasks s) \<and> tasks s ! k = AwaitFetch
            then Some (set_task k Returned
                   (fold (shown env) [error_entry (lit ''Network response was not ok'')] s))
            else None)"
        by (simp add: FetchSettles k Fulfils step_def after_fetch_not_ok catch_block_eq)
      then show ?thesis by blast
    qed
  qed
next
  case (JsonSettles k' r)
  with assms have k: "k' = k" by simp
  show ?thesis
  proof (cases r)
    case (Rejects e)
    have "\<forall>s. step env ev s =
           (if k < length (tasks s) \<and> tasks s ! k = AwaitJson
            then Some (set_task k Returned (fold (shown env) [error_entry (error_message e)] s))
            else None)"
      by (simp add: JsonSettles k Rejects step_def after_json_rejects catch_block_eq)
    then show ?thesis by blast
  next
    case (Fulfils data)
    show ?thesis
    proof (cases "data = JNull")
      case True
      then have "\<forall>s. step env ev s =
           (if k < length (tasks s) \<and> tasks s ! k = AwaitJson
            then Some (set_task k Returned
                   (fold (shown env) [error_entry (engine_message env NullPropertyRead)] s))
            else None)"
        by (simp add: JsonSettles k Fulfils step_def after_json_null catch_block_eq)
      then show ?thesis by blast
    next
      case False
      then obtain v where v: "get_property (engine_message env) data (lit ''response'') = Inr v"
        using get_property_not_null by blast
      show ?thesis
      proof (cases "nullable_DOMString (engine_message env) v")
        case (Inl e)
        then have "\<forall>s. step env ev s =
             (if k < length (tasks s) \<and> tasks s ! k = AwaitJson
              then Some (set_task k Returned
                     (fold (shown env) [error_entry (error_message e)] s))
              else None)"
          by (simp add: JsonSettles k Fulfils step_def after_json_unprintable [OF v]
              catch_block_eq)
        then show ?thesis by blast
      next
        case (Inr t)
        then have "\<forall>s. step env ev s =
             (if k < length (tasks s) \<and> tasks s ! k = AwaitJson
              then Some (set_task k Returned
                     (fold (shown env) [message_element (lit ''bot'') t] s))
              else None)"
          by (simp add: JsonSettles k Fulfils step_def after_json_value [OF v])
        then show ?thesis by blast
      qed
    qed
  qed
qed

subsection \<open>Submitting\<close>

text \<open>
  C1. When the trimmed value of the input field is not empty, a submission appends exactly
  one message of the user whose text is the trimmed value, then clears the input field,
  then issues exactly one request carrying that text (its body, read back as JSON text, is
  the object whose member \<^verbatim>\<open>message\<close> is the trimmed value); all of it is done while the
  activation still waits for \<^verbatim>\<open>fetch\<close> to settle.
\<close>

theorem submit_appends_clears_requests:
  assumes "trim (input_value st) \<noteq> []"
  shows "\<exists>st' req. step env UserSubmits st = Some st' \<and>
           conversation st' =
             conversation st @ [message_element (lit ''user'') (trim (input_value st))] \<and>
           input_value st' = [] \<and>
           trace st' = trace st @
             [Prevented,
              Appended (message_element (lit ''user'') (trim (input_value st))),
              InputSet [],
              Requested req] \<and>
           req = \<lparr>url = lit ''/chat'', http_method = lit ''POST'',
                   headers = [(lit ''Content-Type'', lit ''application/json'')],
                   body = JSON_stringify_message (trim (input_value st))\<rparr> \<and>
           read_message_body (body req) = Some (trim (input_value st)) \<and>
           tasks st' = tasks st @ [AwaitFetch]"
  using assms
  by (simp add: step_def submit_listener_nonempty page_fields shown_fields
      read_message_body_stringify)

theorem submit_appends_clears_requests_witness:
  "trim (input_value example_page) \<noteq> [] \<and>
   (\<exists>st'. step example_env UserSubmits example_page = Some st' \<and>
      conversation st' =
        [message_element (lit ''bot'') (lit ''Welcome''),
         message_element (lit ''user'') (lit ''Hi'')] \<and>
      input_value st' = [] \<and>
      trace st' =
        [Prevented, Appended (message_element (lit ''user'') (lit ''Hi'')), InputSet [],
         Requested \<lparr>url = lit ''/chat'', http_method = lit ''POST'',
                     headers = [(lit ''Content-Type'', lit ''application/json'')],
                     body = lit ''{'' @ [0x22] @ lit ''message'' @ [0x22] @ lit '':'' @
                            [0x22] @ lit ''Hi'' @ [0x22] @ lit ''}''\<rparr>] \<and>
      read_message_body
        (lit ''{'' @ [0x22] @ lit ''message'' @ [0x22] @ lit '':'' @
         [0x22] @ lit ''Hi'' @ [0x22] @ lit ''}'') = Some (lit ''Hi'') \<and>
      tasks st' = [AwaitFetch, AwaitJson, AwaitJson, AwaitFetch])"
proof -
  have ne: "trim (input_value example_page) \<noteq> []"
    by (simp add: example_tasks trim_example_nonempty)
  from submit_appends_clears_requests [OF ne, of example_env]
  obtain st' req where
    "step example_env UserSubmits example_page = Some st'" and
    "conversation st' =
       conversation example_page @
         [message_element (lit ''user'') (trim (input_value example_page))]" and
    "input_value st' = []" and
    "trace st' = trace example_page @
       [Prevented, Appended (message_element (lit ''user'') (trim (input_value example_page))),
        InputSet [], Requested req]" and
    "req = \<lparr>url = lit ''/chat'', http_method = lit ''POST'',
             headers = [(lit ''Content-Type'', lit ''application/json'')],
             body = JSON_stringify_message (trim (input_value example_page))\<rparr>" and
    "read_message_body (body req) = Some (trim (input_value example_page))" and
    "tasks st' = tasks example_page @ [AwaitFetch]"
    by (elim exE conjE)
  then have "step example_env UserSubmits example_page = Some st' \<and>
      conversation st' =
        [message_element (lit ''bot'') (lit ''Welcome''),
         message_element (lit ''user'') (lit ''Hi'')] \<and>
      input_value st' = [] \<and>
      trace st' =
        [Prevented, Appended (message_element (lit ''user'') (lit ''Hi'')), InputSet [],
         Requested \<lparr>url = lit ''/chat'', http_method = lit ''POST'',
                     headers = [(lit ''Content-Type'', lit ''application/json'')],
                     body = lit ''{'' @ [0x22] @ lit ''message'' @ [0x22] @ lit '':'' @
                            [0x22] @ lit ''Hi'' @ [0x22] @ lit ''}''\<rparr>] \<and>
      read_message_body
        (lit ''{'' @ [0x22] @ lit ''message'' @ [0x22] @ lit '':'' @
         [0x22] @ lit ''Hi'' @ [0x22] @ lit ''}'') = Some (lit ''Hi'') \<and>
      tasks st' = [AwaitFetch, AwaitJson, AwaitJson, AwaitFetch]"
    by (simp add: example_tasks trim_example stringify_example)
  then have "\<exists>st'. step example_env UserSubmits example_page = Some st' \<and>
      conversation st' =
        [message_element (lit ''bot'') (lit ''Welcome''),
         message_element (lit ''user'') (lit ''Hi'')] \<and>
      input_value st' = [] \<and>
      trace st' =
        [Prevented, Appended (message_element (lit ''user'') (lit ''Hi'')), InputSet [],
         Requested \<lparr>url = lit ''/chat'', http_method = lit ''POST'',
                     headers = [(lit ''Content-Type'', lit ''application/json'')],
                     body = lit ''{'' @ [0x22] @ lit ''message'' @ [0x22] @ lit '':'' @
                            [0x22] @ lit ''Hi'' @ [0x22] @ lit ''}''\<rparr>] \<and>
      read_message_body
        (lit ''{'' @ [0x22] @ lit ''message'' @ [0x22] @ lit '':'' @
         [0x22] @ lit ''Hi'' @ [0x22] @ lit ''}'') = Some (lit ''Hi'') \<and>
      tasks st' = [AwaitFetch, AwaitJson, AwaitJson, AwaitFetch]"
    by (intro exI)
  with ne show ?thesis
    by (rule conjI)
qed

text \<open>
  C5. When the trimmed value of the input field is empty (the field is empty or holds
  white space only), a submission appends no message, issues no request and leaves the
  value of the input field as it is: the page changes in nothing but the record of the
  call itself.
\<close>

theorem submit_blank_is_noop:
  assumes "trim (input_value st) = []"
  shows "step env UserSubmits st =
           Some (st\<lparr>tasks := tasks st @ [Returned], trace := trace st @ [Prevented]\<rparr>)"
  using assms
  by (simp add: step_def submit_listener_empty start_task_def preventDefault_def)

theorem submit_blank_is_noop_witness:
  "trim (input_value blank_page) = [] \<and>
   step example_env UserSubmits blank_page =
     Some \<lparr>input_value = lit ''   '',
            conversation = [message_element (lit ''bot'') (lit ''Welcome'')],
            scrollTop = 0, tasks = [AwaitFetch, AwaitJson, AwaitJson, Returned],
            trace = [Prevented]\<rparr>"
  using submit_blank_is_noop [OF blank_is_white, of example_env] blank_is_white
  by (simp add: blank_page_def example_page_def)

subsection \<open>The reply\<close>

text \<open>
  C2. An exchange whose response has a status in the success range and whose body is the
  JSON object \<^verbatim>\<open>{"response": r}\<close> appends exactly one message of the bot, with text \<open>r\<close>, and
  no error entry: the settlement of \<^verbatim>\<open>fetch\<close> appends nothing, and the settlement of
  \<^verbatim>\<open>response.json()\<close>, whenever it comes, appends that one message.
\<close>

theorem reply_renders_response:
  assumes "k < length (tasks st)"
  shows "(tasks st ! k = AwaitFetch \<and> ok resp \<longrightarrow>
            (\<exists>st'. run env [FetchSettles k (Fulfils resp),
                             JsonSettles k (Fulfils (JObj [(lit ''response'', JStr r)]))] st
                      = Some st' \<and>
               conversation st' = conversation st @ [message_element (lit ''bot'') r] \<and>
               trace st' = trace st @ [Appended (message_element (lit ''bot'') r)] \<and>
               tasks st' = (tasks st)[k := Returned])) \<and>
         (tasks st ! k = AwaitJson \<longrightarrow>
            (\<exists>st'. step env (JsonSettles k (Fulfils (JObj [(lit ''response'', JStr r)]))) st
                      = Some st' \<and>
               conversation st' = conversation st @ [message_element (lit ''bot'') r] \<and>
               trace st' = trace st @ [Appended (message_element (lit ''bot'') r)] \<and>
               tasks st' = (tasks st)[k := Returned]))"
  using assms
  by (simp add: step_def after_fetch_ok after_json_string page_fields shown_fields)

theorem reply_renders_response_witness:
  "(0::nat) < length (tasks example_page) \<and> tasks example_page ! 0 = AwaitFetch \<and>
   ok \<lparr>status = 200\<rparr> \<and>
   (\<exists>st'. run example_env
             [FetchSettles 0 (Fulfils \<lparr>status = 200\<rparr>),
              JsonSettles 0 (Fulfils (JObj [(lit ''response'', JStr (lit ''hello''))]))]
             example_page = Some st' \<and>
      conversation st' =
        [message_element (lit ''bot'') (lit ''Welcome''),
         message_element (lit ''bot'') (lit ''hello'')] \<and>
      tasks st' = [Returned, AwaitJson, AwaitJson]) \<and>
   (1::nat) < length (tasks example_page) \<and> tasks example_page ! 1 = AwaitJson \<and>
   (\<exists>st'. step example_env
             (JsonSettles 1 (Fulfils (JObj [(lit ''response'', JStr (lit ''hello''))])))
             example_page = Some st' \<and>
      conversation st' =
        [message_element (lit ''bot'') (lit ''Welcome''),
         message_element (lit ''bot'') (lit ''hello'')] \<and>
      tasks st' = [AwaitFetch, Returned, AwaitJson])"
proof -
  have k0: "(0::nat) < length (tasks example_page)" and k1: "(1::nat) < length (tasks example_page)"
    by (simp_all add: example_tasks)
  have w: "tasks example_page ! 0 = AwaitFetch" "ok \<lparr>status = 200\<rparr>"
    "tasks example_page ! 1 = AwaitJson"
    by (simp_all add: example_tasks ok_def)
  show ?thesis
    using k0 k1 w
      reply_renders_response [OF k0, of "\<lparr>status = 200\<rparr>" example_env "lit ''hello''"]
      reply_renders_response [OF k1, of "\<lparr>status = 200\<rparr>" example_env "lit ''hello''"]
    by (simp add: example_tasks) blast
qed

text \<open>
  C3. When \<^verbatim>\<open>fetch\<close> is rejected (the network call fails) or the response has a status
  outside the success range, the failure is caught: the activation returns, no exception
  leaves it, and exactly one message of the bot is appended, whose text is \<^verbatim>\<open>"Error: "\<close>
  followed by the description of the failure. Nothing else happens: no request is issued
  again and no other activation is touched.
\<close>

theorem failure_renders_error:
  assumes "k < length (tasks st)" and "tasks st ! k = AwaitFetch"
  shows "(\<exists>st'. step env (FetchSettles k (Rejects e)) st = Some st' \<and>
            conversation st' = conversation st @ [error_entry (error_message e)] \<and>
            trace st' = trace st @ [Appended (error_entry (error_message e))] \<and>
            tasks st' = (tasks st)[k := Returned]) \<and>
         (\<not> ok resp \<longrightarrow>
            (\<exists>st'. step env (FetchSettles k (Fulfils resp)) st = Some st' \<and>
               conversation st' =
                 conversation st @ [error_entry (lit ''Network response was not ok'')] \<and>
               trace st' =
                 trace st @ [Appended (error_entry (lit ''Network response was not ok''))] \<and>
               tasks st' = (tasks st)[k := Returned]))"
  using assms
  by (simp add: step_def after_fetch_rejects after_fetch_not_ok catch_block_eq
      page_fields shown_fields)

theorem failure_renders_error_witness:
  "(0::nat) < length (tasks example_page) \<and> tasks example_page ! 0 = AwaitFetch \<and>
   \<not> ok \<lparr>status = 500\<rparr> \<and>
   (\<exists>st'. step example_env
             (FetchSettles 0 (Rejects (Exn (lit ''TypeError'') (lit ''Failed to fetch''))))
             example_page = Some st' \<and>
      conversation st' =
        [message_element (lit ''bot'') (lit ''Welcome''),
         message_element (lit ''bot'') (lit ''Error: Failed to fetch'')] \<and>
      tasks st' = [Returned, AwaitJson, AwaitJson]) \<and>
   (\<exists>st'. step example_env (FetchSettles 0 (Fulfils \<lparr>status = 500\<rparr>)) example_page = Some st' \<and>
      conversation st' =
        [message_element (lit ''bot'') (lit ''Welcome''),
         message_element (lit ''bot'') (lit ''Error: Network response was not ok'')] \<and>
      tasks st' = [Returned, AwaitJson, AwaitJson])"
proof -
  have k: "(0::nat) < length (tasks example_page)"
    by (simp add: example_tasks)
  have w: "tasks example_page ! 0 = AwaitFetch"
    by (simp add: example_tasks)
  have n: "\<not> ok \<lparr>status = 500\<rparr>"
    by (simp add: ok_def)
  show ?thesis
    using k w n
      failure_renders_error [OF k w, of example_env
        "Exn (lit ''TypeError'') (lit ''Failed to fetch'')" "\<lparr>status = 500\<rparr>"]
    by (simp add: example_tasks error_entry_def lit_append [symmetric]) blast
qed




subsection \<open>The transcript\<close>

text \<open>
  C7. After every append of a message the conversation is scrolled to the end: when
  \<^verbatim>\<open>appendMessage\<close> returns, and so after every step of the page that has changed the
  conversation, \<^verbatim>\<open>scrollTop\<close> is the largest offset the box can be scrolled to.
\<close>

theorem append_scrolls_to_end:
  "(appendMessage env sender text st = (None, st') \<longrightarrow>
      scrollTop st' = max_scrollTop env st') \<and>
   (step env ev st = Some st'' \<and> conversation st'' \<noteq> conversation st \<longrightarrow>
      scrollTop st'' = max_scrollTop env st'')"
proof -
  have "scrollTop st' = max_scrollTop env st'" if a: "appendMessage env sender text st = (None, st')"
  proof (cases "list_ex ascii_whitespace sender")
    case True
    with a show ?thesis
      by (simp add: appendMessage_whitespace)
  next
    case False
    show ?thesis
    proof (cases "nullable_DOMString (engine_message env) text")
      case (Inl e)
      with a False show ?thesis
        by (simp add: appendMessage_unprintable)
    next
      case (Inr s)
      with a False show ?thesis
        by (auto simp: appendMessage_plain shown_fields)
    qed
  qed
  moreover have "scrollTop st'' = max_scrollTop env st''"
    if s: "step env ev st = Some st''" and c: "conversation st'' \<noteq> conversation st"
  proof -
    from step_extends [OF s] obtain fx where
      "conversation st'' = conversation st @ appended fx" and
      "appended fx = [] \<or> scrollTop st'' = max_scrollTop env st''"
      by blast
    with c show ?thesis by auto
  qed
  ultimately show ?thesis by blast
qed

theorem append_scrolls_to_end_witness:
  "(\<exists>st'. appendMessage example_env (lit ''bot'') (Value (JStr (lit ''hello''))) example_page
            = (None, st') \<and>
      scrollTop st' = 30 \<and> max_scrollTop example_env st' = 30) \<and>
   (\<exists>st''. step example_env UserSubmits example_page = Some st'' \<and>
      conversation st'' \<noteq> conversation example_page \<and>
      scrollTop st'' = 30 \<and> max_scrollTop example_env st'' = 30)"
proof -
  let ?a = "shown example_env (message_element (lit ''bot'') (lit ''hello'')) example_page"
  let ?s = "submit_listener example_env example_page"
  have a: "appendMessage example_env (lit ''bot'') (Value (JStr (lit ''hello''))) example_page
             = (None, ?a)"
    by (simp add: appendMessage_bot [OF nullable_DOMString_JStr])
  have s: "step example_env UserSubmits example_page = Some ?s"
    by (simp add: step_def)
  have ne: "trim (input_value example_page) \<noteq> []"
    by (simp add: example_tasks trim_example) (simp add: lit_Cons)
  have c: "conversation ?s \<noteq> conversation example_page"
    by (simp add: submit_listener_nonempty [OF ne] page_fields shown_fields)
  have ma: "max_scrollTop example_env ?a = 30"
    by (simp add: max_scrollTop_def scrollHeight_def shown_fields example_tasks example_env_def)
  have ms: "max_scrollTop example_env ?s = 30"
    by (simp add: submit_listener_nonempty [OF ne] max_scrollTop_fields)
      (simp add: max_scrollTop_def scrollHeight_def shown_fields page_fields example_tasks
        example_env_def)
  from append_scrolls_to_end [of example_env "lit ''bot''" "Value (JStr (lit ''hello''))"
      example_page ?a UserSubmits ?s] a s c ma ms
  show ?thesis by simp
qed

text \<open>
  C8. The transcript is append-only. Whatever happens on the page, in whatever order, the
  conversation at the end is the conversation at the start followed by the messages the
  script has appended meanwhile, each once and in the order of their appending; no entry
  is changed, moved or removed.
\<close>

theorem transcript_append_only:
  assumes "run env evs st = Some st'"
  shows "\<exists>fx. trace st' = trace st @ fx \<and> conversation st' = conversation st @ appended fx"
  using assms by (rule run_extends)

theorem transcript_append_only_witness:
  "\<exists>st'. run example_env
            [UserSubmits, JsonSettles 2 (Fulfils (JObj [(lit ''response'', JStr (lit ''hello''))])),
             FetchSettles 3 (Rejects (Exn (lit ''TypeError'') (lit ''Failed to fetch'')))]
            example_page = Some st' \<and>
     (\<exists>fx. trace st' = trace example_page @ fx \<and>
        conversation st' = conversation example_page @ appended fx) \<and>
     conversation st' =
       [message_element (lit ''bot'') (lit ''Welcome''),
        message_element (lit ''user'') (lit ''Hi''),
        message_element (lit ''bot'') (lit ''hello''),
        message_element (lit ''bot'') (lit ''Error: Failed to fetch'')]"
proof -
  let ?evs = "[UserSubmits, JsonSettles 2 (Fulfils (JObj [(lit ''response'', JStr (lit ''hello''))])),
             FetchSettles 3 (Rejects (Exn (lit ''TypeError'') (lit ''Failed to fetch'')))]"
  have ne: "trim (input_value example_page) \<noteq> []"
    by (simp add: example_tasks trim_example) (simp add: lit_Cons)
  obtain st' where r: "run example_env ?evs example_page = Some st'"
    and c: "conversation st' =
       [message_element (lit ''bot'') (lit ''Welcome''),
        message_element (lit ''user'') (lit ''Hi''),
        message_element (lit ''bot'') (lit ''hello''),
        message_element (lit ''bot'') (lit ''Error: Failed to fetch'')]"
    by (simp add: step_def submit_listener_nonempty [OF ne] page_fields shown_fields example_tasks
        after_json_string after_fetch_rejects catch_block_eq trim_example error_entry_def
        lit_append [symmetric])
  from transcript_append_only [OF r] r c show ?thesis by simp
qed

subsection \<open>\<^verbatim>\<open>appendMessage\<close> alone\<close>

text \<open>
  C10, as the script has it. For every sender \<open>s\<close> without ASCII whitespace (\<^verbatim>\<open>user\<close> and
  \<^verbatim>\<open>bot\<close> are such) and every text \<open>t\<close>, \<^verbatim>\<open>appendMessage(s, t)\<close> creates one element with the class
  \<open>s\<close> followed by \<^verbatim>\<open>-message\<close> and with the text content \<open>t\<close>, taken as it is, and appends it
  at the end of the conversation; the entries already there stay as they are.
\<close>

theorem appendMessage_appends_one:
  assumes "\<not> list_ex ascii_whitespace s"
  shows "\<exists>st'. appendMessage env s (Value (JStr t)) st = (None, st') \<and>
           conversation st' =
             conversation st @
               [\<lparr>localName = lit ''div'', classList = [s @ lit ''-message''], textContent = t\<rparr>] \<and>
           trace st' =
             trace st @
               [Appended
                  \<lparr>localName = lit ''div'', classList = [s @ lit ''-message''], textContent = t\<rparr>] \<and>
           input_value st' = input_value st \<and> tasks st' = tasks st"
  using assms
  by (simp add: appendMessage_plain [OF _ nullable_DOMString_JStr] shown_fields
      message_element_def)

theorem appendMessage_appends_one_witness:
  "\<not> list_ex ascii_whitespace (lit ''user'') \<and>
   (\<exists>st'. appendMessage example_env (lit ''user'') (Value (JStr (lit ''<b>Hi</b>''))) example_page
            = (None, st') \<and>
      conversation st' =
        [message_element (lit ''bot'') (lit ''Welcome''),
         \<lparr>localName = lit ''div'', classList = [lit ''user-message''],
            textContent = lit ''<b>Hi</b>''\<rparr>])"
  using user_plain
    appendMessage_appends_one [OF user_plain, of example_env "lit ''<b>Hi</b>''" example_page]
  by (simp add: example_tasks lit_append [symmetric]) blast

text \<open>
  C10 as it was stated, for every sender, fails: for the sender \<^verbatim>\<open>"a b"\<close> the class
  would hold a space, \<^verbatim>\<open>classList.add\<close> throws and nothing is appended.
\<close>

theorem whitespace_sender_counterexample:
  "appendMessage example_env (lit ''a b'') (Value (JStr (lit ''x''))) example_page =
     (Some (Exn (lit ''InvalidCharacterError'') (lit ''engine text'')), example_page)"
proof -
  have "list_ex ascii_whitespace (lit ''a b'')"
    by (simp add: lit_Nil lit_Cons ascii_whitespace_def)
  then show ?thesis
    by (simp add: appendMessage_whitespace example_env_def)
qed

subsection \<open>The request\<close>

text \<open>
  C6. Every request the script issues is a POST to \<^verbatim>\<open>/chat\<close> with the one header
  \<^verbatim>\<open>Content-Type: application/json\<close>, and its body is the JSON object \<^verbatim>\<open>{"message": m}\<close> for the
  trimmed text \<open>m\<close> of the input field: the body is what \<^verbatim>\<open>JSON.stringify\<close> gives, and read
  back as JSON text it is the object whose member \<^verbatim>\<open>message\<close> is \<open>m\<close>. Only a submission
  issues a request.
\<close>

theorem request_is_chat_post:
  assumes "step env ev st = Some st'"
  shows "\<exists>fx. trace st' = trace st @ fx \<and>
           (\<forall>req \<in> set (requested fx).
              ev = UserSubmits \<and>
              req = \<lparr>url = lit ''/chat'', http_method = lit ''POST'',
                      headers = [(lit ''Content-Type'', lit ''application/json'')],
                      body = JSON_stringify_message (trim (input_value st))\<rparr> \<and>
              read_message_body (body req) = Some (trim (input_value st)))"
proof -
  let ?req = "\<lparr>url = lit ''/chat'', http_method = lit ''POST'',
                headers = [(lit ''Content-Type'', lit ''application/json'')],
                body = JSON_stringify_message (trim (input_value st))\<rparr>"
  from step_extends [OF assms] obtain fx where
    t: "trace st' = trace st @ fx" and
    r: "requested fx = (if ev = UserSubmits \<and> trim (input_value st) \<noteq> [] then [?req] else [])"
    by blast
  have "ev = UserSubmits \<and> req = ?req \<and>
        read_message_body (body req) = Some (trim (input_value st))"
    if m: "req \<in> set (requested fx)" for req
  proof (cases "ev = UserSubmits \<and> trim (input_value st) \<noteq> []")
    case True
    from r have "requested fx = [?req]"
      unfolding if_P [OF True] .
    with m have q: "req = ?req"
      by simp
    have e: "ev = UserSubmits"
      using True by (rule conjunct1)
    have b: "read_message_body (body req) = Some (trim (input_value st))"
      unfolding q by (simp add: read_message_body_stringify)
    show ?thesis
      by (intro conjI e q b)
  next
    case False
    from r have "requested fx = []"
      unfolding if_not_P [OF False] .
    with m show ?thesis
      by simp
  qed
  then have "\<forall>req \<in> set (requested fx). ev = UserSubmits \<and> req = ?req \<and>
        read_message_body (body req) = Some (trim (input_value st))"
    by (rule ballI)
  with t have "trace st' = trace st @ fx \<and>
      (\<forall>req \<in> set (requested fx). ev = UserSubmits \<and> req = ?req \<and>
        read_message_body (body req) = Some (trim (input_value st)))"
    by (rule conjI)
  then show ?thesis
    by (intro exI)
qed

theorem request_is_chat_post_witness:
  "\<exists>st'. step example_env UserSubmits example_page = Some st' \<and>
     requested (trace st') =
       [\<lparr>url = lit ''/chat'', http_method = lit ''POST'',
          headers = [(lit ''Content-Type'', lit ''application/json'')],
          body = lit ''{'' @ [0x22] @ lit ''message'' @ [0x22] @ lit '':'' @
                 [0x22] @ lit ''Hi'' @ [0x22] @ lit ''}''\<rparr>] \<and>
     read_message_body
       (lit ''{'' @ [0x22] @ lit ''message'' @ [0x22] @ lit '':'' @
        [0x22] @ lit ''Hi'' @ [0x22] @ lit ''}'') = Some (lit ''Hi'')"
proof -
  let ?s = "submit_listener example_env example_page"
  have ne: "trim (input_value example_page) \<noteq> []"
    by (simp add: example_tasks trim_example) (simp add: lit_Cons)
  have s: "step example_env UserSubmits example_page = Some ?s"
    by (simp add: step_def)
  have b: "JSON_stringify_message (lit ''Hi'') =
      lit ''{'' @ [0x22] @ lit ''message'' @ [0x22] @ lit '':'' @
      [0x22] @ lit ''Hi'' @ [0x22] @ lit ''}''"
    by (simp add: JSON_stringify_message_def QuoteJSONString_def quote_code_unit_def
        leading_surrogate_def trailing_surrogate_def lit_Nil lit_Cons)
  have t: "requested (trace ?s) =
      [\<lparr>url = lit ''/chat'', http_method = lit ''POST'',
         headers = [(lit ''Content-Type'', lit ''application/json'')],
         body = JSON_stringify_message (lit ''Hi'')\<rparr>]"
    by (simp add: submit_listener_nonempty [OF ne] page_fields shown_fields example_tasks
        trim_example)
  from request_is_chat_post [OF s] obtain fx where
    fx: "trace ?s = trace example_page @ fx" and
    r: "\<forall>req \<in> set (requested fx).
          read_message_body (body req) = Some (trim (input_value example_page))"
    by blast
  from fx have "requested fx = requested (trace ?s)"
    by (simp add: example_tasks)
  with r t have "read_message_body (JSON_stringify_message (lit ''Hi'')) = Some (lit ''Hi'')"
    by (simp add: example_tasks trim_example)
  with s t b show ?thesis by simp
qed

subsection \<open>Overlapping exchanges\<close>

text \<open>
  Two settlements of different activations that can both happen can happen in either
  order, and each appends after the other what it would have appended alone.
\<close>

lemma settlements_commute:
  assumes "i \<noteq> j" and "settles a = Some i" and "settles b = Some j"
    and "step env a st = Some sa" and "step env b st = Some sb"
  shows "\<exists>sab sba. run env [a, b] st = Some sab \<and> run env [b, a] st = Some sba \<and>
            conversation sab =
              conversation st @ drop (length (conversation st)) (conversation sa)
                              @ drop (length (conversation st)) (conversation sb) \<and>
            conversation sba =
              conversation st @ drop (length (conversation st)) (conversation sb)
                              @ drop (length (conversation st)) (conversation sa) \<and>
            tasks sab = tasks sba"
proof -
  from settlement_uniform [OF assms(2)] obtain ea ta wa where
    a: "\<And>s. step env a s =
           (if i < length (tasks s) \<and> tasks s ! i = wa
            then Some (set_task i ta (fold (shown env) ea s)) else None)"
    by blast
  from settlement_uniform [OF assms(3)] obtain eb tb wb where
    b: "\<And>s. step env b s =
           (if j < length (tasks s) \<and> tasks s ! j = wb
            then Some (set_task j tb (fold (shown env) eb s)) else None)"
    by blast
  from assms(4) a [of st] have ia: "i < length (tasks st)" "tasks st ! i = wa"
    and sa: "sa = set_task i ta (fold (shown env) ea st)"
    by (auto split: if_splits)
  from assms(5) b [of st] have jb: "j < length (tasks st)" "tasks st ! j = wb"
    and sb: "sb = set_task j tb (fold (shown env) eb st)"
    by (auto split: if_splits)
  have ab: "step env b sa = Some (set_task j tb (fold (shown env) eb sa))"
    using assms(1) ia jb by (simp add: b sa page_fields fold_shown_fields)
  have ba: "step env a sb = Some (set_task i ta (fold (shown env) ea sb))"
    using assms(1) ia jb by (simp add: a sb page_fields fold_shown_fields)
  let ?sab = "set_task j tb (fold (shown env) eb sa)"
  let ?sba = "set_task i ta (fold (shown env) ea sb)"
  have r1: "run env [a, b] st = Some ?sab"
    by (simp add: assms(4) ab)
  have r2: "run env [b, a] st = Some ?sba"
    by (simp add: assms(5) ba)
  have c1: "conversation ?sab =
      conversation st @ drop (length (conversation st)) (conversation sa)
                      @ drop (length (conversation st)) (conversation sb)"
    by (simp add: sa sb page_fields fold_shown_fields)
  have c2: "conversation ?sba =
      conversation st @ drop (length (conversation st)) (conversation sb)
                      @ drop (length (conversation st)) (conversation sa)"
    by (simp add: sa sb page_fields fold_shown_fields)
  have t: "tasks ?sab = tasks ?sba"
    by (simp add: sa sb page_fields fold_shown_fields list_update_swap [OF assms(1)])
  have "run env [a, b] st = Some ?sab \<and> run env [b, a] st = Some ?sba \<and>
      conversation ?sab =
        conversation st @ drop (length (conversation st)) (conversation sa)
                        @ drop (length (conversation st)) (conversation sb) \<and>
      conversation ?sba =
        conversation st @ drop (length (conversation st)) (conversation sb)
                        @ drop (length (conversation st)) (conversation sa) \<and>
      tasks ?sab = tasks ?sba"
    by (intro conjI r1 r2 c1 c2 t)
  then show "\<exists>sab sba. run env [a, b] st = Some sab \<and> run env [b, a] st = Some sba \<and>
      conversation sab =
        conversation st @ drop (length (conversation st)) (conversation sa)
                        @ drop (length (conversation st)) (conversation sb) \<and>
      conversation sba =
        conversation st @ drop (length (conversation st)) (conversation sb)
                        @ drop (length (conversation st)) (conversation sa) \<and>
      tasks sab = tasks sba"
    by (intro exI)
qed



text \<open>
  C9. A submission made while an earlier exchange is still under way is not held back: it
  starts an exchange of its own, with its own message, its own request and its own
  activation, and leaves the earlier activation as it is; from then on the promise of
  either can settle, whatever the other does. And nothing orders the completions: on any
  page, when the promises of two different activations can both settle, they can settle
  in either order, and the replies are appended in the order of the settlements.
\<close>

theorem overlapping_exchanges:
  assumes "i < length (tasks st)"
    and "tasks st ! i = AwaitFetch \<or> tasks st ! i = AwaitJson"
    and "trim (input_value st) \<noteq> []"
  shows "(\<exists>st'. step env UserSubmits st = Some st' \<and>
            conversation st' =
              conversation st @ [message_element (lit ''user'') (trim (input_value st))] \<and>
            trace st' = trace st @
              [Prevented,
               Appended (message_element (lit ''user'') (trim (input_value st))),
               InputSet [],
               Requested \<lparr>url = lit ''/chat'', http_method = lit ''POST'',
                           headers = [(lit ''Content-Type'', lit ''application/json'')],
                           body = JSON_stringify_message (trim (input_value st))\<rparr>] \<and>
            read_message_body (JSON_stringify_message (trim (input_value st))) =
              Some (trim (input_value st)) \<and>
            tasks st' = tasks st @ [AwaitFetch] \<and>
            tasks st' ! i = tasks st ! i \<and>
            (\<forall>r. step env (FetchSettles (length (tasks st)) r) st' \<noteq> None) \<and>
            (tasks st ! i = AwaitFetch \<longrightarrow> (\<forall>r. step env (FetchSettles i r) st' \<noteq> None)) \<and>
            (tasks st ! i = AwaitJson \<longrightarrow> (\<forall>r. step env (JsonSettles i r) st' \<noteq> None))) \<and>
         (m \<noteq> n \<and> settles a = Some m \<and> settles b = Some n \<and>
          step env a s = Some sa \<and> step env b s = Some sb \<longrightarrow>
            (\<exists>sab sba. run env [a, b] s = Some sab \<and> run env [b, a] s = Some sba \<and>
               conversation sab =
                 conversation s @ drop (length (conversation s)) (conversation sa)
                                @ drop (length (conversation s)) (conversation sb) \<and>
               conversation sba =
                 conversation s @ drop (length (conversation s)) (conversation sb)
                                @ drop (length (conversation s)) (conversation sa) \<and>
               tasks sab = tasks sba))"
proof -
  let ?m = "trim (input_value st)"
  let ?st' = "submit_listener env st"
  have s: "step env UserSubmits st = Some ?st'"
    by (simp add: step_def)
  have c: "conversation ?st' = conversation st @ [message_element (lit ''user'') ?m]"
    by (simp add: submit_listener_nonempty [OF assms(3)] page_fields shown_fields)
  have t: "trace ?st' = trace st @
      [Prevented, Appended (message_element (lit ''user'') ?m), InputSet [],
       Requested \<lparr>url = lit ''/chat'', http_method = lit ''POST'',
                   headers = [(lit ''Content-Type'', lit ''application/json'')],
                   body = JSON_stringify_message ?m\<rparr>]"
    by (simp add: submit_listener_nonempty [OF assms(3)] page_fields shown_fields)
  have r: "read_message_body (JSON_stringify_message ?m) = Some ?m"
    by (rule read_message_body_stringify)
  have k: "tasks ?st' = tasks st @ [AwaitFetch]"
    by (simp add: submit_listener_nonempty [OF assms(3)] page_fields shown_fields)
  have u: "tasks ?st' ! i = tasks st ! i"
    using assms(1) by (simp add: k nth_append)
  have e1: "\<forall>r. step env (FetchSettles (length (tasks st)) r) ?st' \<noteq> None"
    by (simp add: step_def k)
  have e2: "tasks st ! i = AwaitFetch \<longrightarrow> (\<forall>r. step env (FetchSettles i r) ?st' \<noteq> None)"
    using assms(1) by (simp add: step_def k nth_append)
  have e3: "tasks st ! i = AwaitJson \<longrightarrow> (\<forall>r. step env (JsonSettles i r) ?st' \<noteq> None)"
    using assms(1) by (simp add: step_def k nth_append)
  have scenario: "\<exists>st'. step env UserSubmits st = Some st' \<and>
      conversation st' = conversation st @ [message_element (lit ''user'') ?m] \<and>
      trace st' = trace st @
        [Prevented, Appended (message_element (lit ''user'') ?m), InputSet [],
         Requested \<lparr>url = lit ''/chat'', http_method = lit ''POST'',
                     headers = [(lit ''Content-Type'', lit ''application/json'')],
                     body = JSON_stringify_message ?m\<rparr>] \<and>
      read_message_body (JSON_stringify_message ?m) = Some ?m \<and>
      tasks st' = tasks st @ [AwaitFetch] \<and>
      tasks st' ! i = tasks st ! i \<and>
      (\<forall>r. step env (FetchSettles (length (tasks st)) r) st' \<noteq> None) \<and>
      (tasks st ! i = AwaitFetch \<longrightarrow> (\<forall>r. step env (FetchSettles i r) st' \<noteq> None)) \<and>
      (tasks st ! i = AwaitJson \<longrightarrow> (\<forall>r. step env (JsonSettles i r) st' \<noteq> None))"
    by (intro exI [of _ ?st'] conjI s c t r k u e1 e2 e3)
  have order: "m \<noteq> n \<and> settles a = Some m \<and> settles b = Some n \<and>
      step env a s = Some sa \<and> step env b s = Some sb \<longrightarrow>
        (\<exists>sab sba. run env [a, b] s = Some sab \<and> run env [b, a] s = Some sba \<and>
           conversation sab =
             conversation s @ drop (length (conversation s)) (conversation sa)
                            @ drop (length (conversation s)) (conversation sb) \<and>
           conversation sba =
             conversation s @ drop (length (conversation s)) (conversation sb)
                            @ drop (length (conversation s)) (conversation sa) \<and>
           tasks sab = tasks sba)"
  proof
    assume h: "m \<noteq> n \<and> settles a = Some m \<and> settles b = Some n \<and>
      step env a s = Some sa \<and> step env b s = Some sb"
    then have 1: "m \<noteq> n" and 2: "settles a = Some m" and 3: "settles b = Some n"
      and 4: "step env a s = Some sa" and 5: "step env b s = Some sb"
      by simp_all
    show "\<exists>sab sba. run env [a, b] s = Some sab \<and> run env [b, a] s = Some sba \<and>
           conversation sab =
             conversation s @ drop (length (conversation s)) (conversation sa)
                            @ drop (length (conversation s)) (conversation sb) \<and>
           conversation sba =
             conversation s @ drop (length (conversation s)) (conversation sb)
                            @ drop (length (conversation s)) (conversation sa) \<and>
           tasks sab = tasks sba"
      by (rule settlements_commute [OF 1 2 3 4 5])
  qed
  show ?thesis
    by (intro conjI scenario order)
qed

theorem overlapping_exchanges_witness:
  "(0::nat) < length (tasks pending_page) \<and>
   (tasks pending_page ! 0 = AwaitFetch \<or> tasks pending_page ! 0 = AwaitJson) \<and>
   trim (input_value pending_page) \<noteq> [] \<and>
   (\<exists>st'. step example_env UserSubmits pending_page = Some st' \<and>
      conversation st' =
        [message_element (lit ''user'') (lit ''Hello''),
         message_element (lit ''user'') (lit ''Hi'')] \<and>
      trace st' =
        [Prevented, Appended (message_element (lit ''user'') (lit ''Hi'')), InputSet [],
         Requested \<lparr>url = lit ''/chat'', http_method = lit ''POST'',
                     headers = [(lit ''Content-Type'', lit ''application/json'')],
                     body = lit ''{'' @ [0x22] @ lit ''message'' @ [0x22] @ lit '':'' @
                            [0x22] @ lit ''Hi'' @ [0x22] @ lit ''}''\<rparr>] \<and>
      tasks st' = [AwaitJson, AwaitFetch] \<and>
      (\<exists>sab sba.
         run example_env
           [JsonSettles 0 (Fulfils (JObj [(lit ''response'', JStr (lit ''one''))])),
            FetchSettles 1 (Rejects (Exn (lit ''TypeError'') (lit ''Failed to fetch'')))]
           st' = Some sab \<and>
         run example_env
           [FetchSettles 1 (Rejects (Exn (lit ''TypeError'') (lit ''Failed to fetch''))),
            JsonSettles 0 (Fulfils (JObj [(lit ''response'', JStr (lit ''one''))]))]
           st' = Some sba \<and>
         conversation sab =
           [message_element (lit ''user'') (lit ''Hello''),
            message_element (lit ''user'') (lit ''Hi''),
            message_element (lit ''bot'') (lit ''one''),
            message_element (lit ''bot'') (lit ''Error: Failed to fetch'')] \<and>
         conversation sba =
           [message_element (lit ''user'') (lit ''Hello''),
            message_element (lit ''user'') (lit ''Hi''),
            message_element (lit ''bot'') (lit ''Error: Failed to fetch''),
            message_element (lit ''bot'') (lit ''one'')]))"
proof -
  let ?a = "JsonSettles 0 (Fulfils (JObj [(lit ''response'', JStr (lit ''one''))]))"
  let ?b = "FetchSettles 1 (Rejects (Exn (lit ''TypeError'') (lit ''Failed to fetch'')))"
  let ?st' = "submit_listener example_env pending_page"
  let ?sa = "set_task 0 Returned (shown example_env (message_element (lit ''bot'') (lit ''one'')) ?st')"
  let ?sb = "set_task 1 Returned (shown example_env (error_entry (lit ''Failed to fetch'')) ?st')"
  have h1: "(0::nat) < length (tasks pending_page)"
    by (simp add: pending_fields)
  have h2: "tasks pending_page ! 0 = AwaitFetch \<or> tasks pending_page ! 0 = AwaitJson"
    by (simp add: pending_fields)
  have h3: "trim (input_value pending_page) \<noteq> []"
    by (simp add: pending_fields trim_example_nonempty)
  have s: "step example_env UserSubmits pending_page = Some ?st'"
    by (simp add: step_def)
  have c: "conversation ?st' =
      [message_element (lit ''user'') (lit ''Hello''), message_element (lit ''user'') (lit ''Hi'')]"
    by (simp add: submit_listener_nonempty [OF h3] page_fields shown_fields pending_fields
        trim_example)
  have t: "trace ?st' =
      [Prevented, Appended (message_element (lit ''user'') (lit ''Hi'')), InputSet [],
       Requested \<lparr>url = lit ''/chat'', http_method = lit ''POST'',
                   headers = [(lit ''Content-Type'', lit ''application/json'')],
                   body = lit ''{'' @ [0x22] @ lit ''message'' @ [0x22] @ lit '':'' @
                          [0x22] @ lit ''Hi'' @ [0x22] @ lit ''}''\<rparr>]"
    by (simp add: submit_listener_nonempty [OF h3] page_fields shown_fields pending_fields
        trim_example stringify_example)
  have k: "tasks ?st' = [AwaitJson, AwaitFetch]"
    by (simp add: submit_listener_nonempty [OF h3] page_fields shown_fields pending_fields)
  have d: "(0::nat) \<noteq> 1"
    by simp
  have a: "settles ?a = Some 0" and b: "settles ?b = Some 1"
    by simp_all
  have sa: "step example_env ?a ?st' = Some ?sa"
    by (simp add: step_def k after_json_string)
  have sb: "step example_env ?b ?st' = Some ?sb"
    by (simp add: step_def k after_fetch_rejects catch_block_eq)
  have ca: "drop (length (conversation ?st')) (conversation ?sa) =
      [message_element (lit ''bot'') (lit ''one'')]"
    by (simp add: page_fields shown_fields)
  have cb: "drop (length (conversation ?st')) (conversation ?sb) =
      [message_element (lit ''bot'') (lit ''Error: Failed to fetch'')]"
    by (simp add: page_fields shown_fields error_entry_def lit_append [symmetric])
  note T = overlapping_exchanges [OF h1 h2 h3, where env = example_env and m = 0 and n = 1
      and a = ?a and b = ?b and s = ?st' and sa = ?sa and sb = ?sb]
  have hyp: "(0::nat) \<noteq> 1 \<and> settles ?a = Some 0 \<and> settles ?b = Some 1 \<and>
      step example_env ?a ?st' = Some ?sa \<and> step example_env ?b ?st' = Some ?sb"
    by (intro conjI d a b sa sb)
  from T have "(0::nat) \<noteq> 1 \<and> settles ?a = Some 0 \<and> settles ?b = Some 1 \<and>
      step example_env ?a ?st' = Some ?sa \<and> step example_env ?b ?st' = Some ?sb \<longrightarrow>
      (\<exists>sab sba. run example_env [?a, ?b] ?st' = Some sab \<and>
         run example_env [?b, ?a] ?st' = Some sba \<and>
         conversation sab =
           conversation ?st' @ drop (length (conversation ?st')) (conversation ?sa)
                             @ drop (length (conversation ?st')) (conversation ?sb) \<and>
         conversation sba =
           conversation ?st' @ drop (length (conversation ?st')) (conversation ?sb)
                             @ drop (length (conversation ?st')) (conversation ?sa) \<and>
         tasks sab = tasks sba)"
    by (rule conjunct2)
  from this hyp have "\<exists>sab sba. run example_env [?a, ?b] ?st' = Some sab \<and>
         run example_env [?b, ?a] ?st' = Some sba \<and>
         conversation sab =
           conversation ?st' @ drop (length (conversation ?st')) (conversation ?sa)
                             @ drop (length (conversation ?st')) (conversation ?sb) \<and>
         conversation sba =
           conversation ?st' @ drop (length (conversation ?st')) (conversation ?sb)
                             @ drop (length (conversation ?st')) (conversation ?sa) \<and>
         tasks sab = tasks sba"
    by (rule mp)
  then obtain sab sba where
    f1: "run example_env [?a, ?b] ?st' = Some sab" and
    f2: "run example_env [?b, ?a] ?st' = Some sba" and
    f3: "conversation sab =
       conversation ?st' @ drop (length (conversation ?st')) (conversation ?sa)
                         @ drop (length (conversation ?st')) (conversation ?sb)" and
    f4: "conversation sba =
       conversation ?st' @ drop (length (conversation ?st')) (conversation ?sb)
                         @ drop (length (conversation ?st')) (conversation ?sa)"
    by (elim exE conjE)
  have g3: "conversation sab =
      [message_element (lit ''user'') (lit ''Hello''),
       message_element (lit ''user'') (lit ''Hi''),
       message_element (lit ''bot'') (lit ''one''),
       message_element (lit ''bot'') (lit ''Error: Failed to fetch'')]"
    using f3 unfolding ca cb by (simp add: c)
  have g4: "conversation sba =
      [message_element (lit ''user'') (lit ''Hello''),
       message_element (lit ''user'') (lit ''Hi''),
       message_element (lit ''bot'') (lit ''Error: Failed to fetch''),
       message_element (lit ''bot'') (lit ''one'')]"
    using f4 unfolding ca cb by (simp add: c)
  have "run example_env [?a, ?b] ?st' = Some sab \<and>
      run example_env [?b, ?a] ?st' = Some sba \<and>
      conversation sab =
        [message_element (lit ''user'') (lit ''Hello''),
         message_element (lit ''user'') (lit ''Hi''),
         message_element (lit ''bot'') (lit ''one''),
         message_element (lit ''bot'') (lit ''Error: Failed to fetch'')] \<and>
      conversation sba =
        [message_element (lit ''user'') (lit ''Hello''),
         message_element (lit ''user'') (lit ''Hi''),
         message_element (lit ''bot'') (lit ''Error: Failed to fetch''),
         message_element (lit ''bot'') (lit ''one'')]"
    by (intro conjI f1 f2 g3 g4)
  then have order: "\<exists>sab sba. run example_env [?a, ?b] ?st' = Some sab \<and>
      run example_env [?b, ?a] ?st' = Some sba \<and>
      conversation sab =
        [message_element (lit ''user'') (lit ''Hello''),
         message_element (lit ''user'') (lit ''Hi''),
         message_element (lit ''bot'') (lit ''one''),
         message_element (lit ''bot'') (lit ''Error: Failed to fetch'')] \<and>
      conversation sba =
        [message_element (lit ''user'') (lit ''Hello''),
         message_element (lit ''user'') (lit ''Hi''),
         message_element (lit ''bot'') (lit ''Error: Failed to fetch''),
         message_element (lit ''bot'') (lit ''one'')]"
    by (intro exI)
  show ?thesis
    by (intro conjI h1 h2 h3 exI [of _ ?st'] s c t k order)
qed

end
